theory Spec2Isabelle
  imports
    Complex_Main
    "HOL-Library.Char_ord"
    "HOL-Library.List_Lexorder"
    "HOL-Library.Product_Lexorder"
    "HOL-Library.Multiset"
begin

section \<open>Cells, text and numbers\<close>

text \<open>
  The program (\<^verbatim>\<open>src/app.py\<close>) reads two spreadsheets with
  \<^verbatim>\<open>pd.read_excel(path, header=None)\<close> and hands the raw frames to
  \<^verbatim>\<open>limpiar_tributos\<close> and \<^verbatim>\<open>limpiar_contribuyentes\<close>. A raw frame is
  modelled as a list of rows, each a list of cells. A cell is empty (pandas' NaN), an
  integer, a float or a text.

  Modelling decisions that hold for the whole development:
  \<^item> floats are exact rationals: IEEE rounding, signed zeros and the infinities that a
    text such as \<^verbatim>\<open>inf\<close> would parse to are outside the model; the only place
    where the program itself can produce a non-finite value, the division of the
    efficiency metric, is modelled with an explicit type below;
  \<^item> a text is a list of 8-bit characters; upper-casing acts on the ASCII letters and
    white space is the ASCII white space of Python's \<^verbatim>\<open>str.strip\<close>;
  \<^item> boolean and date cells are not modelled;
  \<^item> a frame is rectangular; a cell beyond the end of a row reads as NaN;
  \<^item> the types pandas gives to whole columns are not modelled: a cell keeps the type
    it has in the sheet, and a relation is the list of its records.
\<close>

datatype cell = NaN | IntC int | FloatC rat | Str string

datatype error = IndexError | KeyError | ValueError | AttributeError

definition cell_at :: "cell list \<Rightarrow> nat \<Rightarrow> cell" where
  "cell_at row j = (if j < length row then row ! j else NaN)"

definition notna :: "cell \<Rightarrow> bool" where
  "notna c = (c \<noteq> NaN)"

subsection \<open>Python's \<^verbatim>\<open>str\<close> on a cell\<close>

definition digit_char :: "int \<Rightarrow> char" where
  "digit_char d = char_of (48 + d)"

text \<open>The decimal digits of a number that is not negative.\<close>

function str_digits :: "int \<Rightarrow> string" where
  "str_digits n =
     (if n < 10 then [digit_char n] else str_digits (n div 10) @ [digit_char (n mod 10)])"
  by pat_completeness auto
termination
  by (relation "measure nat") auto

declare str_digits.simps [simp del]

definition str_int :: "int \<Rightarrow> string" where
  "str_int i = (if i < 0 then CHR ''-'' # str_digits (- i) else str_digits i)"

text \<open>The decimal digits of a fraction in [0, 1), at most \<open>k\<close> of them.\<close>

fun frac_digits :: "nat \<Rightarrow> rat \<Rightarrow> string" where
  "frac_digits 0 f = []"
| "frac_digits (Suc k) f =
     (if f = 0 then []
      else (let d = \<lfloor>f * 10\<rfloor> in digit_char d # frac_digits k (f * 10 - of_int d)))"

text \<open>
  The text of a float: integer part, point, fraction (\<^verbatim>\<open>2024.0\<close>,
  \<^verbatim>\<open>123.45\<close>). It is Python's \<^verbatim>\<open>repr\<close> for the values with a short
  decimal expansion and a magnitude for which Python does not switch to the exponent
  notation.
\<close>

definition str_float :: "rat \<Rightarrow> string" where
  "str_float r =
     (let a = \<bar>r\<bar>; ip = \<lfloor>a\<rfloor>; fd = frac_digits 17 (a - of_int ip)
      in (if r < 0 then ''-'' else []) @ str_digits ip @ ''.'' @ (if fd = [] then ''0'' else fd))"

fun py_str :: "cell \<Rightarrow> string" where
  "py_str NaN = ''nan''"
| "py_str (IntC i) = str_int i"
| "py_str (FloatC r) = str_float r"
| "py_str (Str s) = s"

subsection \<open>\<^verbatim>\<open>str.strip\<close>, \<^verbatim>\<open>str.upper\<close>, \<^verbatim>\<open>in\<close>, \<^verbatim>\<open>startswith\<close>, \<^verbatim>\<open>split\<close>\<close>

definition is_space :: "char \<Rightarrow> bool" where
  "is_space c = (let n = (of_char c :: int) in (9 \<le> n \<and> n \<le> 13) \<or> (28 \<le> n \<and> n \<le> 32))"

definition strip :: "string \<Rightarrow> string" where
  "strip s = rev (dropWhile is_space (rev (dropWhile is_space s)))"

definition upper_char :: "char \<Rightarrow> char" where
  "upper_char c =
     (let n = (of_char c :: int) in if 97 \<le> n \<and> n \<le> 122 then char_of (n - 32) else c)"

definition upper :: "string \<Rightarrow> string" where
  "upper s = map upper_char s"

definition startswith :: "string \<Rightarrow> string \<Rightarrow> bool" where
  "startswith s p = (take (length p) s = p)"

text \<open>\<^verbatim>\<open>sub in s\<close> on texts.\<close>

fun contains :: "string \<Rightarrow> string \<Rightarrow> bool" where
  "contains [] sub = (sub = [])"
| "contains (c # cs) sub = (startswith (c # cs) sub \<or> contains cs sub)"

text \<open>\<^verbatim>\<open>s.split(sep)\<close> for a one-character separator.\<close>

fun split :: "char \<Rightarrow> string \<Rightarrow> string list" where
  "split sep [] = [[]]"
| "split sep (c # cs) =
     (if c = sep then [] # split sep cs
      else (case split sep cs of p # ps \<Rightarrow> (c # p) # ps | [] \<Rightarrow> [[c]]))"

subsection \<open>\<^verbatim>\<open>pd.to_numeric(..., errors='coerce')\<close> on a cell\<close>

definition is_digit :: "char \<Rightarrow> bool" where
  "is_digit c = (let n = (of_char c :: int) in 48 \<le> n \<and> n \<le> 57)"

definition digits_val :: "string \<Rightarrow> int" where
  "digits_val ds = foldl (\<lambda>a c. 10 * a + (of_char c - 48)) 0 ds"

definition parse_nat :: "string \<Rightarrow> int option" where
  "parse_nat s = (if s \<noteq> [] \<and> list_all is_digit s then Some (digits_val s) else None)"

text \<open>Digits with an optional fraction: \<^verbatim>\<open>12\<close>, \<^verbatim>\<open>12.\<close>, \<^verbatim>\<open>12.5\<close>, \<^verbatim>\<open>.5\<close>.\<close>

definition parse_decimal :: "string \<Rightarrow> rat option" where
  "parse_decimal s =
     (let ip = takeWhile is_digit s; r = dropWhile is_digit s
      in (case r of
            [] \<Rightarrow> (if ip = [] then None else Some (of_int (digits_val ip)))
          | c # fs \<Rightarrow>
              (if c = CHR ''.'' \<and> list_all is_digit fs \<and> (ip \<noteq> [] \<or> fs \<noteq> [])
               then Some (of_int (digits_val ip) + of_int (digits_val fs) / 10 ^ length fs)
               else None)))"

definition parse_sign :: "string \<Rightarrow> bool \<times> string" where
  "parse_sign s =
     (case s of
        c # cs \<Rightarrow> (if c = CHR ''-'' then (True, cs) else if c = CHR ''+'' then (False, cs) else (False, s))
      | [] \<Rightarrow> (False, s))"

definition parse_exponent :: "string \<Rightarrow> int option" where
  "parse_exponent s =
     (let (neg, ds) = parse_sign s
      in map_option (\<lambda>n. if neg then - n else n) (parse_nat ds))"

definition is_sci :: "char \<Rightarrow> bool" where
  "is_sci c = (c = CHR ''e'' \<or> c = CHR ''E'')"

text \<open>
  The number a text stands for: optional white space around it, a sign, a decimal and
  an optional exponent. Every other text is unparsable (\<open>None\<close>, pandas' NaN under
  \<^verbatim>\<open>errors='coerce'\<close>).
\<close>

definition parse_number :: "string \<Rightarrow> rat option" where
  "parse_number s =
     (let (neg, u) = parse_sign (strip s);
          mant = takeWhile (\<lambda>c. \<not> is_sci c) u;
          rest = dropWhile (\<lambda>c. \<not> is_sci c) u;
          ex = (case rest of [] \<Rightarrow> Some 0 | _ # es \<Rightarrow> parse_exponent es)
      in (case (parse_decimal mant, ex) of
            (Some m, Some e) \<Rightarrow>
               (let v = (if e < 0 then m / 10 ^ nat (- e) else m * 10 ^ nat e)
                in Some (if neg then - v else v))
          | _ \<Rightarrow> None))"

fun to_numeric :: "cell \<Rightarrow> rat option" where
  "to_numeric NaN = None"
| "to_numeric (IntC i) = Some (of_int i)"
| "to_numeric (FloatC r) = Some r"
| "to_numeric (Str s) = parse_number s"

text \<open>\<^verbatim>\<open>pd.to_numeric(col, errors='coerce').fillna(d)\<close>, cell by cell.\<close>

definition to_numeric_fillna :: "rat \<Rightarrow> cell \<Rightarrow> rat" where
  "to_numeric_fillna d c = (case to_numeric c of None \<Rightarrow> d | Some v \<Rightarrow> v)"

section \<open>Key normalisation\<close>

text \<open>
  Regions: \<^verbatim>\<open>.str.upper().str.strip()\<close> in \<^verbatim>\<open>limpiar_tributos\<close>, and the same
  followed by \<^verbatim>\<open>.replace({'LIMA METROPOLITANA': 'LIMA'})\<close> in
  \<^verbatim>\<open>limpiar_contribuyentes\<close>.
\<close>

definition normalizar_departamento :: "string \<Rightarrow> string" where
  "normalizar_departamento s = strip (upper s)"

definition replace_lima :: "string \<Rightarrow> string" where
  "replace_lima s = (if s = ''LIMA METROPOLITANA'' then ''LIMA'' else s)"

definition normalizar_departamento_cont :: "string \<Rightarrow> string" where
  "normalizar_departamento_cont s = replace_lima (normalizar_departamento s)"

text \<open>Months: \<^verbatim>\<open>df_long['Mes'].map(mapa_meses).fillna(df_long['Mes'])\<close>.\<close>

definition mapa_meses :: "(string \<times> string) list" where
  "mapa_meses =
     [(''Ene.'', ''Enero''), (''Feb.'', ''Febrero''), (''Mar.'', ''Marzo''),
      (''Abr.'', ''Abril''), (''May.'', ''Mayo''), (''Jun.'', ''Junio''),
      (''Jul.'', ''Julio''), (''Ago.'', ''Agosto''), (''Sep.'', ''Septiembre''),
      (''Set.'', ''Septiembre''), (''Oct.'', ''Octubre''), (''Nov.'', ''Noviembre''),
      (''Dic.'', ''Diciembre'')]"

definition normalizar_mes :: "string \<Rightarrow> string" where
  "normalizar_mes m = (case map_of mapa_meses m of None \<Rightarrow> m | Some v \<Rightarrow> v)"

text \<open>The twelve full names the dictionary maps to.\<close>

definition meses_canonicos :: "string list" where
  "meses_canonicos = remdups (map snd mapa_meses)"

section \<open>The collection sheet: \<^verbatim>\<open>limpiar_tributos\<close>\<close>

text \<open>The column names \<^verbatim>\<open>'Mes'\<close> and \<^verbatim>\<open>'A\<ntilde>o'\<close> (the latter in UTF-8).\<close>

definition Mes :: string where
  "Mes = ''Mes''"

definition Anio :: string where
  "Anio = [CHR ''A'', CHR 0xC3, CHR 0xB1, CHR ''o'']"

text \<open>
  The test of the header search,
  \<^verbatim>\<open>'Mes' in row_str and ('Amazonas' in row_str or 'AMAZONAS' in row_str)\<close>
  with \<^verbatim>\<open>row_str = row.astype(str).values\<close>.
\<close>

definition row_str :: "cell list \<Rightarrow> string list" where
  "row_str row = map py_str row"

definition es_cabecera :: "cell list \<Rightarrow> bool" where
  "es_cabecera row =
     (''Mes'' \<in> set (row_str row) \<and>
      (''Amazonas'' \<in> set (row_str row) \<or> ''AMAZONAS'' \<in> set (row_str row)))"

text \<open>The \<^verbatim>\<open>for i, row in df_raw.iterrows()\<close> loop with its \<^verbatim>\<open>break\<close>.\<close>

fun buscar_cabecera :: "nat \<Rightarrow> cell list list \<Rightarrow> nat option" where
  "buscar_cabecera i [] = None"
| "buscar_cabecera i (row # rows) =
     (if es_cabecera row then Some i else buscar_cabecera (Suc i) rows)"

definition header_idx :: "cell list list \<Rightarrow> nat" where
  "header_idx df_raw = (case buscar_cabecera 0 df_raw of None \<Rightarrow> 1 | Some i \<Rightarrow> i)"

text \<open>
  \<^verbatim>\<open>df.rename(columns={df.columns[0]: 'Mes', df.columns[1]: 'A\<ntilde>o'})\<close>: a renaming
  of labels, so every column that carries the label is renamed; when both labels are
  equal the dictionary keeps the second entry.
\<close>

definition rename_columns :: "string list \<Rightarrow> string list" where
  "rename_columns cols =
     map (\<lambda>c. if c = cols ! 1 then Anio else if c = cols ! 0 then Mes else c) cols"

definition columnas_tributos :: "cell list \<Rightarrow> error + string list" where
  "columnas_tributos header =
     (let cols = map (\<lambda>c. strip (py_str c)) header
      in if Mes \<notin> set cols \<and> Anio \<notin> set cols
         then (if length cols < 2 then Inl IndexError else Inr (rename_columns cols))
         else Inr cols)"

text \<open>The first position of a label, and all its positions.\<close>

definition index_of :: "string list \<Rightarrow> string \<Rightarrow> nat" where
  "index_of cols l = length (takeWhile (\<lambda>c. c \<noteq> l) cols)"

definition positions :: "string list \<Rightarrow> string \<Rightarrow> nat list" where
  "positions cols l = filter (\<lambda>j. cols ! j = l) [0..<length cols]"

text \<open>
  \<^verbatim>\<open>value_vars = [c for c in df.columns if c not in id_vars and 'Unnamed' not in c]\<close>,
  and the positions of the columns \<^verbatim>\<open>melt\<close> keeps for them (each column once, in the
  order in which the labels select them).
\<close>

definition value_vars :: "string list \<Rightarrow> string list" where
  "value_vars cols = filter (\<lambda>c. c \<notin> {Mes, Anio} \<and> \<not> contains c ''Unnamed'') cols"

definition value_idx :: "string list \<Rightarrow> nat list" where
  "value_idx cols = remdups (concat (map (positions cols) (value_vars cols)))"

text \<open>
  \<^verbatim>\<open>df.melt(id_vars=['Mes', 'A\<ntilde>o'], value_vars=..., var_name='Departamento',
  value_name='Recaudacion')\<close>: one record per value column and body row, column by
  column. A record is (Mes, A\<ntilde>o, Departamento, Recaudacion), still raw.
\<close>

definition melt_tributos :: "string list \<Rightarrow> cell list list \<Rightarrow> (cell \<times> cell \<times> string \<times> cell) list" where
  "melt_tributos cols df =
     concat (map (\<lambda>j. map (\<lambda>row. (cell_at row (index_of cols Mes), cell_at row (index_of cols Anio),
                                   cols ! j, cell_at row j)) df)
                 (value_idx cols))"

record tributo =
  t_Mes :: cell
  t_Anio :: rat
  t_Departamento :: string
  Recaudacion :: rat

text \<open>
  Lines 44 to 47 on one record: the value coerced with default 0, the year coerced and
  the record dropped when the year is NaN, the region normalised. The month is kept as
  the sheet has it.
\<close>

definition limpiar_registro_tributos :: "cell \<times> cell \<times> string \<times> cell \<Rightarrow> tributo option" where
  "limpiar_registro_tributos r =
     (case r of (mes, anio, dep, v) \<Rightarrow>
        (case to_numeric anio of
           None \<Rightarrow> None
         | Some y \<Rightarrow> Some \<lparr>t_Mes = mes, t_Anio = y,
                           t_Departamento = normalizar_departamento dep,
                           Recaudacion = to_numeric_fillna 0 v\<rparr>))"

text \<open>
  The whole function. The exceptions pandas raises on a sheet without usable headers
  are branches: \<^verbatim>\<open>iloc\<close> past the last row and \<^verbatim>\<open>df.columns[1]\<close> on a one-column
  sheet (IndexError), \<^verbatim>\<open>melt\<close> on a frame that already has a column
  \<^verbatim>\<open>Recaudacion\<close> or two columns with the label of an identifier (ValueError), and
  \<^verbatim>\<open>melt\<close> without one of the identifier columns (KeyError).
\<close>

definition limpiar_tributos :: "cell list list \<Rightarrow> error + tributo list" where
  "limpiar_tributos df_raw =
     (let h = header_idx df_raw
      in if length df_raw \<le> h then Inl IndexError
         else (case columnas_tributos (df_raw ! h) of
                 Inl e \<Rightarrow> Inl e
               | Inr cols \<Rightarrow>
                   (let df = drop (h + 1) df_raw
                    in if ''Recaudacion'' \<in> set cols then Inl ValueError
                       else if \<not> (Mes \<in> set cols \<and> Anio \<in> set cols) then Inl KeyError
                       else if \<not> (count_list cols Mes = 1 \<and> count_list cols Anio = 1) then Inl ValueError
                       else Inr (List.map_filter limpiar_registro_tributos (melt_tributos cols df)))))"

section \<open>The taxpayer sheet: \<^verbatim>\<open>limpiar_contribuyentes\<close>\<close>

text \<open>
  The header loop. \<open>cur\<close> is \<^verbatim>\<open>current_year\<close> (\<open>None\<close> for Python's \<^verbatim>\<open>None\<close>);
  \<^verbatim>\<open>if current_year\<close> is Python's truth value of the cell.
\<close>

definition es_anio :: "cell \<Rightarrow> bool" where
  "es_anio y = (notna y \<and> strip (py_str y) \<notin> {''nan'', []})"

fun truthy :: "cell option \<Rightarrow> bool" where
  "truthy None = False"
| "truthy (Some NaN) = True"
| "truthy (Some (IntC i)) = (i \<noteq> 0)"
| "truthy (Some (FloatC r)) = (r \<noteq> 0)"
| "truthy (Some (Str s)) = (s \<noteq> [])"

definition etiqueta :: "nat \<Rightarrow> cell option \<Rightarrow> cell \<Rightarrow> string" where
  "etiqueta i cur m =
     (if i = 0 then ''Departamento''
      else if truthy cur \<and> notna m then py_str (the cur) @ ''_'' @ py_str m
      else ''DROP_'' @ str_int (int i))"

fun new_cols_loop :: "nat \<Rightarrow> cell option \<Rightarrow> cell list \<Rightarrow> cell list \<Rightarrow> string list" where
  "new_cols_loop i cur [] months = []"
| "new_cols_loop i cur (y # years) months =
     (let cur' = (if es_anio y then Some y else cur)
      in etiqueta i cur' (cell_at months i) # new_cols_loop (Suc i) cur' years months)"

definition new_cols :: "cell list \<Rightarrow> cell list \<Rightarrow> string list" where
  "new_cols years months = new_cols_loop 0 None years months"

text \<open>
  \<^verbatim>\<open>df[[c for c in df.columns if not c.startswith('DROP')]]\<close>: the labels that
  are kept, and the columns the selection by these labels gives (every column that
  carries the label, for each label of the list). Then
  \<^verbatim>\<open>melt(id_vars=['Departamento'], ...)\<close>: the value columns are the kept columns
  other than the identifier.
\<close>

definition kept_labels :: "string list \<Rightarrow> string list" where
  "kept_labels cols = filter (\<lambda>c. \<not> startswith c ''DROP'') cols"

definition kept_idx :: "string list \<Rightarrow> nat list" where
  "kept_idx cols = concat (map (positions cols) (kept_labels cols))"

definition melt_contribuyentes :: "string list \<Rightarrow> cell list list \<Rightarrow> (cell \<times> string \<times> cell) list" where
  "melt_contribuyentes cols df =
     concat (map (\<lambda>j. map (\<lambda>row. (cell_at row 0, cols ! j, cell_at row j)) df)
                 (filter (\<lambda>j. cols ! j \<noteq> ''Departamento'') (kept_idx cols)))"

record contribuyente =
  c_Departamento :: "string option"
  Year_Mes :: string
  Contribuyentes :: rat
  c_Anio :: "rat option"
  c_Mes :: string

text \<open>
  Lines 72 to 78 on one record. \<^verbatim>\<open>.str\<close> methods give NaN (\<open>None\<close>) on a cell that
  is not a text; the year is coerced and kept, NaN (\<open>None\<close>) included.
\<close>

definition limpiar_registro_contribuyentes :: "cell \<times> string \<times> cell \<Rightarrow> contribuyente" where
  "limpiar_registro_contribuyentes r =
     (case r of (dep, ym, v) \<Rightarrow>
        \<lparr>c_Departamento = (case dep of Str s \<Rightarrow> Some (normalizar_departamento_cont s) | _ \<Rightarrow> None),
         Year_Mes = ym,
         Contribuyentes = to_numeric_fillna 1 v,
         c_Anio = parse_number (split (CHR ''_'') ym ! 0),
         c_Mes = normalizar_mes (split (CHR ''_'') ym ! 1)\<rparr>)"

definition is_str :: "cell \<Rightarrow> bool" where
  "is_str c = (case c of Str s \<Rightarrow> True | _ \<Rightarrow> False)"

text \<open>
  Whether pandas accepts \<^verbatim>\<open>.str\<close> on the region column: it holds a text, or it is
  all NaN in a column that the header rows made an object column.
\<close>

definition str_accessor_ok :: "cell list list \<Rightarrow> bool" where
  "str_accessor_ok df_raw =
     (list_ex (\<lambda>row. is_str (cell_at row 0)) (drop 2 df_raw) \<or>
      (list_all (\<lambda>row. cell_at row 0 = NaN) (drop 2 df_raw) \<and>
       list_ex (\<lambda>row. is_str (cell_at row 0)) (take 2 df_raw)))"

text \<open>
  The whole function. Its exceptions: \<^verbatim>\<open>iloc[0]\<close>, \<^verbatim>\<open>iloc[1]\<close> on a sheet with
  fewer than two rows (IndexError); \<^verbatim>\<open>melt\<close> on a sheet without columns (KeyError);
  the assignment of the split labels to the two columns when the split does not give
  exactly two columns, which is the case when there is no record at all or when a
  label has a second underscore (ValueError); \<^verbatim>\<open>.str\<close> on a region column without
  texts (AttributeError).
\<close>

definition limpiar_contribuyentes :: "cell list list \<Rightarrow> error + contribuyente list" where
  "limpiar_contribuyentes df_raw =
     (if length df_raw < 2 then Inl IndexError
      else (let cols = new_cols (df_raw ! 0) (df_raw ! 1);
                df = drop 2 df_raw;
                df_long = melt_contribuyentes cols df
            in if cols = [] then Inl KeyError
               else if df_long = [] \<or> list_ex (\<lambda>r. length (split (CHR ''_'') (fst (snd r))) \<noteq> 2) df_long
                    then Inl ValueError
               else if \<not> str_accessor_ok df_raw then Inl AttributeError
               else Inr (map limpiar_registro_contribuyentes df_long)))"

section \<open>Join, aggregation and ranking: \<^verbatim>\<open>procesar_logica\<close>\<close>

record merged =
  m_Mes :: string
  m_Anio :: rat
  m_Departamento :: string
  m_Recaudacion :: rat
  m_Year_Mes :: string
  m_Contribuyentes :: rat

text \<open>
  \<^verbatim>\<open>pd.merge(df_trib, df_cont, on=['Departamento', 'A\<ntilde>o', 'Mes'], how='inner')\<close>.
  The month of a collection record is the sheet's cell, the month of a taxpayer record
  is a text, so two records agree on the month when the cell is that text.
\<close>

definition same_key :: "tributo \<Rightarrow> contribuyente \<Rightarrow> bool" where
  "same_key t c =
     (c_Departamento c = Some (t_Departamento t) \<and> c_Anio c = Some (t_Anio t) \<and>
      t_Mes t = Str (c_Mes c))"

definition join_rows :: "tributo \<Rightarrow> contribuyente \<Rightarrow> merged" where
  "join_rows t c =
     \<lparr>m_Mes = c_Mes c, m_Anio = t_Anio t, m_Departamento = t_Departamento t,
      m_Recaudacion = Recaudacion t, m_Year_Mes = Year_Mes c,
      m_Contribuyentes = Contribuyentes c\<rparr>"

definition merge :: "tributo list \<Rightarrow> contribuyente list \<Rightarrow> merged list" where
  "merge df_trib df_cont =
     concat (map (\<lambda>t. map (join_rows t) (filter (same_key t) df_cont)) df_trib)"

text \<open>
  The result of a float division: a quotient, or what IEEE arithmetic gives for a zero
  divisor (pandas divides columns without raising).
\<close>

datatype float64 = Fin rat | PosInf | NegInf | NotANumber

definition true_div :: "rat \<Rightarrow> rat \<Rightarrow> float64" where
  "true_div a b =
     (if b \<noteq> 0 then Fin (a / b)
      else if 0 < a then PosInf else if a < 0 then NegInf else NotANumber)"

record ranking =
  r_Departamento :: string
  r_Recaudacion :: rat
  r_Contribuyentes :: rat
  Soles_por_Contribuyente :: float64

text \<open>
  \<^verbatim>\<open>groupby('Departamento').agg({'Recaudacion': 'sum', 'Contribuyentes': 'mean'})
  .reset_index()\<close>: one row per region, the regions in ascending order.
\<close>

definition mean :: "rat list \<Rightarrow> rat" where
  "mean xs = sum_list xs / of_nat (length xs)"

definition grupo :: "merged list \<Rightarrow> string \<Rightarrow> merged list" where
  "grupo df d = filter (\<lambda>m. m_Departamento m = d) df"

definition groupby_agg :: "merged list \<Rightarrow> (string \<times> rat \<times> rat) list" where
  "groupby_agg df =
     map (\<lambda>d. (d, sum_list (map m_Recaudacion (grupo df d)), mean (map m_Contribuyentes (grupo df d))))
         (sort (remdups (map m_Departamento df)))"

text \<open>Line 99: the metric column.\<close>

definition con_metrica :: "string \<times> rat \<times> rat \<Rightarrow> ranking" where
  "con_metrica g =
     (case g of (d, rec, con) \<Rightarrow>
        \<lparr>r_Departamento = d, r_Recaudacion = rec, r_Contribuyentes = con,
         Soles_por_Contribuyente = true_div (rec * 1000000) con\<rparr>)"

text \<open>
  \<^verbatim>\<open>sort_values('Soles_por_Contribuyente', ascending=False)\<close>. The call leaves
  \<^verbatim>\<open>kind\<close> at its default \<^verbatim>\<open>'quicksort'\<close>, the algorithm of the numerical library,
  which pandas documents as not stable. The algorithm is a parameter of the model: a
  function from the column to the positions of the rows in output order. What the
  library promises of it is \<open>argsort_desc\<close>: the positions are a rearrangement of all
  positions, and the column read in that order is descending with the NaNs last
  (\<^verbatim>\<open>na_position='last'\<close>).
\<close>

definition desc_key :: "float64 \<Rightarrow> nat \<times> rat" where
  "desc_key x =
     (case x of PosInf \<Rightarrow> (0, 0) | Fin r \<Rightarrow> (1, - r) | NegInf \<Rightarrow> (2, 0) | NotANumber \<Rightarrow> (3, 0))"



definition sort_values :: "(float64 list \<Rightarrow> nat list) \<Rightarrow> ranking list \<Rightarrow> ranking list" where
  "sort_values quicksort df = map (\<lambda>i. df ! i) (quicksort (map Soles_por_Contribuyente df))"

definition df_ranking :: "merged list \<Rightarrow> ranking list" where
  "df_ranking df_filtrado = map con_metrica (groupby_agg df_filtrado)"

definition procesar_logica ::
  "(float64 list \<Rightarrow> nat list) \<Rightarrow> tributo list \<Rightarrow> contribuyente list \<Rightarrow> int \<Rightarrow> ranking list option" where
  "procesar_logica quicksort df_trib df_cont anio_target =
     (let df_merged = merge df_trib df_cont;
          df_filtrado = filter (\<lambda>m. m_Anio m = of_int anio_target) df_merged
      in if df_filtrado = [] then None
         else Some (sort_values quicksort (df_ranking df_filtrado)))"

section \<open>The dashboard's use of the pipeline\<close>

text \<open>
  Line 160:
  \<^verbatim>\<open>sorted(list(set(df_trib['A\<ntilde>o'].unique()) & set(df_cont['A\<ntilde>o'].unique())), reverse=True)\<close>.
\<close>

definition anios_disponibles :: "tributo list \<Rightarrow> contribuyente list \<Rightarrow> rat list" where
  "anios_disponibles df_trib df_cont =
     rev (sort (remdups (filter (\<lambda>y. Some y \<in> set (map c_Anio df_cont)) (map t_Anio df_trib))))"

text \<open>Lines 156 to 163: both sheets cleaned, the years offered, the ranking of a year.\<close>

definition dashboard ::
  "(float64 list \<Rightarrow> nat list) \<Rightarrow> cell list list \<Rightarrow> cell list list \<Rightarrow> int
     \<Rightarrow> error + (rat list \<times> ranking list option)" where
  "dashboard quicksort df_trib_raw df_cont_raw anio =
     (case limpiar_tributos df_trib_raw of
        Inl e \<Rightarrow> Inl e
      | Inr df_trib \<Rightarrow>
          (case limpiar_contribuyentes df_cont_raw of
             Inl e \<Rightarrow> Inl e
           | Inr df_cont \<Rightarrow>
               Inr (anios_disponibles df_trib df_cont,
                    procesar_logica quicksort df_trib df_cont anio)))"

text \<open>
  Two sorting algorithms that keep the library's promise, for evaluating the pipeline:
  one that leaves equal values in their order, one that reverses them.
\<close>

definition stable_quicksort :: "float64 list \<Rightarrow> nat list" where
  "stable_quicksort ks = sort_key (\<lambda>i. desc_key (ks ! i)) [0..<length ks]"


section \<open>Notions of the specification\<close>

text \<open>
  Forward fill, as the specification words it: the year of column \<open>i\<close> is the most
  recent year cell at or to the left of the column, scanning left to right. A year
  cell is one the header loop accepts (\<open>es_anio\<close>).
\<close>

definition forward_fill :: "cell list \<Rightarrow> nat \<Rightarrow> cell option" where
  "forward_fill years i =
     (case filter es_anio (rev (take (Suc i) years)) of [] \<Rightarrow> None | y # _ \<Rightarrow> Some y)"


text \<open>
  A non-empty sheet with resolvable headers. For the collection sheet: the header row
  exists and gives the column names \<open>cols\<close>, among them exactly one \<^verbatim>\<open>Mes\<close> and
  one \<^verbatim>\<open>A\<ntilde>o\<close> and no \<^verbatim>\<open>Recaudacion\<close>. For the taxpayer sheet: there are data rows
  below the two header rows, at least one value column is kept, each kept label
  splits into a year and a month, and the region column holds texts. Neither
  condition reads a value cell of the data rows.
\<close>

definition cabecera_resoluble :: "cell list list \<Rightarrow> string list \<Rightarrow> bool" where
  "cabecera_resoluble df_raw cols =
     (header_idx df_raw < length df_raw \<and>
      columnas_tributos (df_raw ! header_idx df_raw) = Inr cols \<and>
      ''Recaudacion'' \<notin> set cols \<and> count_list cols Mes = 1 \<and> count_list cols Anio = 1)"

definition cabecera_resoluble_cont :: "cell list list \<Rightarrow> string list \<Rightarrow> bool" where
  "cabecera_resoluble_cont df_raw cols =
     (2 < length df_raw \<and>
      cols = new_cols (df_raw ! 0) (df_raw ! 1) \<and>
      filter (\<lambda>j. cols ! j \<noteq> ''Departamento'') (kept_idx cols) \<noteq> [] \<and>
      list_all (\<lambda>j. length (split (CHR ''_'') (cols ! j)) = 2)
        (filter (\<lambda>j. cols ! j \<noteq> ''Departamento'') (kept_idx cols)) \<and>
      str_accessor_ok df_raw)"

section \<open>Properties of the key normalisation\<close>















lemma meses_canonicos_eq:
  "meses_canonicos =
     [''Enero'', ''Febrero'', ''Marzo'', ''Abril'', ''Mayo'', ''Junio'', ''Julio'', ''Agosto'',
      ''Septiembre'', ''Octubre'', ''Noviembre'', ''Diciembre'']"
  by code_simp

lemma canonical_fixed: "\<forall>m \<in> set meses_canonicos. normalizar_mes m = m"
  by code_simp

lemma abbreviations_mapped:
  "\<forall>(k, v) \<in> set mapa_meses. normalizar_mes k = v \<and> v \<in> set meses_canonicos"
  by code_simp

lemma normalizar_mes_idem: "normalizar_mes (normalizar_mes m) = normalizar_mes m"
proof (cases "map_of mapa_meses m")
  case None then show ?thesis by (simp add: normalizar_mes_def)
next
  case (Some v)
  then have "(m, v) \<in> set mapa_meses" by (rule map_of_SomeD)
  with abbreviations_mapped have "case (m, v) of (k, v) \<Rightarrow> normalizar_mes k = v \<and> v \<in> set meses_canonicos"
    by (rule bspec)
  then have "v \<in> set meses_canonicos" by (simp only: prod.case)
  with canonical_fixed have "normalizar_mes v = v" by (rule bspec)
  with Some show ?thesis by (simp add: normalizar_mes_def)
qed

lemma unknown_passes: "m \<notin> set (map fst mapa_meses) \<longrightarrow> normalizar_mes m = m"
proof
  assume "m \<notin> set (map fst mapa_meses)"
  then have "map_of mapa_meses m = None" by (simp only: map_of_eq_None_iff set_map not_False_eq_True)
  then show "normalizar_mes m = m" by (simp add: normalizar_mes_def)
qed

text \<open>
  C8. Month normalisation is a function without an error case; the dictionary's
  values are twelve full names, each of which it maps to itself; it maps every
  abbreviation of the dictionary to its full name, \<^verbatim>\<open>Sep.\<close> and \<^verbatim>\<open>Set.\<close> both
  to \<^verbatim>\<open>Septiembre\<close>; a token that is no key of the dictionary passes through
  unchanged; so normalising twice is normalising once.
\<close>

theorem month_normalization:
  "meses_canonicos =
     [''Enero'', ''Febrero'', ''Marzo'', ''Abril'', ''Mayo'', ''Junio'', ''Julio'', ''Agosto'',
      ''Septiembre'', ''Octubre'', ''Noviembre'', ''Diciembre''] \<and>
   (\<forall>m \<in> set meses_canonicos. normalizar_mes m = m) \<and>
   (\<forall>(k, v) \<in> set mapa_meses. normalizar_mes k = v \<and> v \<in> set meses_canonicos) \<and>
   normalizar_mes ''Sep.'' = ''Septiembre'' \<and>
   normalizar_mes ''Set.'' = ''Septiembre'' \<and>
   (m \<notin> set (map fst mapa_meses) \<longrightarrow> normalizar_mes m = m) \<and>
   normalizar_mes (normalizar_mes m) = normalizar_mes m"
proof -
  have a: "normalizar_mes ''Sep.'' = ''Septiembre''" by code_simp
  have b: "normalizar_mes ''Set.'' = ''Septiembre''" by code_simp
  note c = meses_canonicos_eq
  note d = canonical_fixed
  note e = abbreviations_mapped
  note f = unknown_passes [of m]
  note g = normalizar_mes_idem [of m]
  show ?thesis
    by (intro conjI) (rule c, rule d, rule e, rule a, rule b, rule f, rule g)
qed

theorem month_normalization_witness:
  "normalizar_mes ''Enero'' = ''Enero'' \<and> normalizar_mes ''Ene.'' = ''Enero'' \<and>
   normalizar_mes ''Lunes'' = ''Lunes''"
proof -
  note t = month_normalization [of "''Lunes''"]
  have u: "''Lunes'' \<notin> set (map fst mapa_meses)" by code_simp
  have e: "''Enero'' \<in> set meses_canonicos" by code_simp
  have f: "(''Ene.'', ''Enero'') \<in> set mapa_meses" by code_simp
  from t have p: "''Lunes'' \<notin> set (map fst mapa_meses) \<longrightarrow> normalizar_mes ''Lunes'' = ''Lunes''"
    by (elim conjE)
  from p u have 1: "normalizar_mes ''Lunes'' = ''Lunes''" by (rule mp)
  from t have q: "\<forall>m \<in> set meses_canonicos. normalizar_mes m = m" by (elim conjE)
  from q e have 2: "normalizar_mes ''Enero'' = ''Enero''" by (rule bspec)
  from t have r: "\<forall>(k, v) \<in> set mapa_meses. normalizar_mes k = v \<and> v \<in> set meses_canonicos"
    by (elim conjE)
  from r f have "case (''Ene.'', ''Enero'') of (k, v) \<Rightarrow> normalizar_mes k = v \<and> v \<in> set meses_canonicos"
    by (rule bspec)
  then have 3: "normalizar_mes ''Ene.'' = ''Enero''" by (simp only: prod.case)
  from 1 2 3 show ?thesis by (intro conjI)
qed

section \<open>The header of the collection sheet\<close>

lemma buscar_cabecera_Some:
  "buscar_cabecera k g = Some n \<longleftrightarrow>
     (\<exists>i < length g. n = k + i \<and> es_cabecera (g ! i) \<and> (\<forall>j < i. \<not> es_cabecera (g ! j)))"
proof (induction g arbitrary: k)
  case Nil
  then show ?case by simp
next
  case (Cons row rows)
  show ?case
  proof (cases "es_cabecera row")
    case True
    have "n = k \<longleftrightarrow>
       (\<exists>i < length (row # rows). n = k + i \<and> es_cabecera ((row # rows) ! i) \<and>
          (\<forall>j < i. \<not> es_cabecera ((row # rows) ! j)))" (is "_ \<longleftrightarrow> ?R")
    proof
      assume "n = k"
      with True have "0 < length (row # rows) \<and> n = k + 0 \<and> es_cabecera ((row # rows) ! 0) \<and>
          (\<forall>j < 0. \<not> es_cabecera ((row # rows) ! j))" by simp
      then show ?R by blast
    next
      assume ?R
      then obtain i where i: "n = k + i" "\<forall>j < i. \<not> es_cabecera ((row # rows) ! j)" by blast
      have "i = 0"
      proof (rule ccontr)
        assume "i \<noteq> 0"
        then have "0 < i" by simp
        with i(2) have "\<not> es_cabecera ((row # rows) ! 0)" by blast
        with True show False by simp
      qed
      with i(1) show "n = k" by simp
    qed
    with True show ?thesis by auto
  next
    case False
    have "(\<exists>i < length rows. n = Suc k + i \<and> es_cabecera (rows ! i) \<and>
            (\<forall>j < i. \<not> es_cabecera (rows ! j))) \<longleftrightarrow>
       (\<exists>i < length (row # rows). n = k + i \<and> es_cabecera ((row # rows) ! i) \<and>
          (\<forall>j < i. \<not> es_cabecera ((row # rows) ! j)))" (is "?L \<longleftrightarrow> ?R")
    proof
      assume ?L
      then obtain i where i: "i < length rows" "n = Suc k + i" "es_cabecera (rows ! i)"
        "\<forall>j < i. \<not> es_cabecera (rows ! j)" by blast
      have "\<forall>j < Suc i. \<not> es_cabecera ((row # rows) ! j)"
      proof (intro allI impI)
        fix j assume "j < Suc i"
        then show "\<not> es_cabecera ((row # rows) ! j)"
          using False i(4) by (cases j) auto
      qed
      with i have "Suc i < length (row # rows) \<and> n = k + Suc i \<and>
        es_cabecera ((row # rows) ! Suc i) \<and> (\<forall>j < Suc i. \<not> es_cabecera ((row # rows) ! j))"
        by simp
      then show ?R by blast
    next
      assume ?R
      then obtain i where i: "i < length (row # rows)" "n = k + i" "es_cabecera ((row # rows) ! i)"
        "\<forall>j < i. \<not> es_cabecera ((row # rows) ! j)" by blast
      from i(3) False obtain i' where i': "i = Suc i'" by (cases i) auto
      have "\<forall>j < i'. \<not> es_cabecera (rows ! j)"
      proof (intro allI impI)
        fix j assume "j < i'"
        then have "Suc j < i" using i' by simp
        with i(4) have "\<not> es_cabecera ((row # rows) ! Suc j)" by blast
        then show "\<not> es_cabecera (rows ! j)" by simp
      qed
      with i i' have "i' < length rows \<and> n = Suc k + i' \<and> es_cabecera (rows ! i') \<and>
        (\<forall>j < i'. \<not> es_cabecera (rows ! j))" by simp
      then show ?L by blast
    qed
    with False Cons.IH [of "Suc k"] show ?thesis by simp
  qed
qed

lemma buscar_cabecera_None:
  "buscar_cabecera k g = None \<longleftrightarrow> (\<forall>i < length g. \<not> es_cabecera (g ! i))"
proof (induction g arbitrary: k)
  case Nil
  then show ?case by simp
next
  case (Cons row rows)
  have "(\<forall>i < length (row # rows). \<not> es_cabecera ((row # rows) ! i)) \<longleftrightarrow>
        (\<not> es_cabecera row \<and> (\<forall>i < length rows. \<not> es_cabecera (rows ! i)))"
    by (simp add: All_less_Suc2)
  with Cons.IH [of "Suc k"] show ?case by simp
qed

text \<open>
  C9, as the code has it. The header row of the collection sheet is the first row
  whose cells, as texts, include \<^verbatim>\<open>Mes\<close> and one of the two spellings
  \<^verbatim>\<open>Amazonas\<close> and \<^verbatim>\<open>AMAZONAS\<close>; when no row does, it is row 1.
\<close>

theorem header_idx_first_match:
  "(es_cabecera row \<longleftrightarrow>
      ''Mes'' \<in> set (map py_str row) \<and>
      (''Amazonas'' \<in> set (map py_str row) \<or> ''AMAZONAS'' \<in> set (map py_str row))) \<and>
   (i < length g \<and> es_cabecera (g ! i) \<and> (\<forall>j < i. \<not> es_cabecera (g ! j))
      \<longrightarrow> header_idx g = i) \<and>
   ((\<forall>j < length g. \<not> es_cabecera (g ! j)) \<longrightarrow> header_idx g = 1)"
proof (intro conjI impI)
  show "es_cabecera row \<longleftrightarrow>
      ''Mes'' \<in> set (map py_str row) \<and>
      (''Amazonas'' \<in> set (map py_str row) \<or> ''AMAZONAS'' \<in> set (map py_str row))"
    by (simp only: es_cabecera_def row_str_def)
next
  assume "i < length g \<and> es_cabecera (g ! i) \<and> (\<forall>j < i. \<not> es_cabecera (g ! j))"
  then have "\<exists>i' < length g. i = 0 + i' \<and> es_cabecera (g ! i') \<and> (\<forall>j < i'. \<not> es_cabecera (g ! j))"
    by auto
  then have "buscar_cabecera 0 g = Some i" by (simp only: buscar_cabecera_Some)
  then show "header_idx g = i" by (simp add: header_idx_def)
next
  assume "\<forall>j < length g. \<not> es_cabecera (g ! j)"
  then have "buscar_cabecera 0 g = None" by (simp only: buscar_cabecera_None)
  then show "header_idx g = 1" by (simp add: header_idx_def)
qed

theorem header_idx_first_match_witness:
  "header_idx [[Str ''Recaudacion''], [Str ''Mes'', Str Anio, Str ''AMAZONAS'']] = 1 \<and>
   header_idx [[Str ''Mes'', Str Anio, Str ''Amazonas''], [Str ''Enero'', IntC 2024, IntC 7]] = 0 \<and>
   header_idx [[Str ''Mes'', Str Anio, Str ''Lima''], [NaN], [NaN]] = 1"
proof -
  let ?g = "[[Str ''Recaudacion''], [Str ''Mes'', Str Anio, Str ''AMAZONAS'']]"
  let ?h = "[[Str ''Mes'', Str Anio, Str ''Amazonas''], [Str ''Enero'', IntC 2024, IntC 7]]"
  let ?k = "[[Str ''Mes'', Str Anio, Str ''Lima''], [NaN], [NaN]]"
  have g0: "\<not> es_cabecera (?g ! 0)" by code_simp
  have g1: "es_cabecera (?g ! 1)" by code_simp
  have "\<forall>j < 1. \<not> es_cabecera (?g ! j)" using g0 by simp
  with g1 have "1 < length ?g \<and> es_cabecera (?g ! 1) \<and> (\<forall>j < 1. \<not> es_cabecera (?g ! j))"
    by simp
  with header_idx_first_match [of _ 1 ?g] have 1: "header_idx ?g = 1" by blast
  have h0: "es_cabecera (?h ! 0)" by code_simp
  then have "0 < length ?h \<and> es_cabecera (?h ! 0) \<and> (\<forall>j < 0. \<not> es_cabecera (?h ! j))"
    by simp
  with header_idx_first_match [of _ 0 ?h] have 2: "header_idx ?h = 0" by blast
  have k0: "\<not> es_cabecera (?k ! 0)" by code_simp
  have k1: "\<not> es_cabecera (?k ! 1)" by code_simp
  have k2: "\<not> es_cabecera (?k ! 2)" by code_simp
  have "\<forall>j < length ?k. \<not> es_cabecera (?k ! j)"
  proof (intro allI impI)
    fix j assume "j < length ?k"
    then have "j = 0 \<or> j = 1 \<or> j = 2" by auto
    with k0 k1 k2 show "\<not> es_cabecera (?k ! j)" by blast
  qed
  with header_idx_first_match [of _ _ ?k] have 3: "header_idx ?k = 1" by blast
  from 1 2 3 show ?thesis by (intro conjI)
qed

text \<open>
  The claim as stated fails: a row with \<^verbatim>\<open>Mes\<close> and the region in lower case
  is not found, and the fallback row is taken.
\<close>

theorem header_idx_case_sensitive:
  "header_idx [[Str ''x''], [Str ''y''], [Str ''Mes'', Str Anio, Str ''amazonas'']] = 1 \<and>
   ''Mes'' \<in> set (map py_str ([[Str ''x''], [Str ''y''], [Str ''Mes'', Str Anio, Str ''amazonas'']] ! 2)) \<and>
   ''amazonas'' \<in> set (map py_str ([[Str ''x''], [Str ''y''], [Str ''Mes'', Str Anio, Str ''amazonas'']] ! 2)) \<and>
   upper ''amazonas'' = upper ''Amazonas'' \<and>
   ''Mes'' \<notin> set (map py_str ([[Str ''x''], [Str ''y''], [Str ''Mes'', Str Anio, Str ''amazonas'']] ! 1))"
  by code_simp

section \<open>The header of the taxpayer sheet\<close>

lemma length_new_cols_loop: "length (new_cols_loop k cur years months) = length years"
  by (induction years arbitrary: k cur) (simp_all add: Let_def)

lemma forward_fill_0:
  "forward_fill (y # years) 0 = (if es_anio y then Some y else None)"
  by (simp add: forward_fill_def)

lemma forward_fill_Suc:
  "forward_fill (y # years) (Suc i) =
     (case forward_fill years i of None \<Rightarrow> (if es_anio y then Some y else None) | Some z \<Rightarrow> Some z)"
  by (cases "filter es_anio (rev (take (Suc i) years))") (simp_all add: forward_fill_def)

text \<open>The loop's \<^verbatim>\<open>current_year\<close> at column \<open>i\<close> is the forward fill.\<close>

lemma new_cols_loop_nth:
  "i < length years \<Longrightarrow>
   new_cols_loop k cur years months ! i =
     etiqueta (k + i) (case forward_fill years i of None \<Rightarrow> cur | Some y \<Rightarrow> Some y)
       (cell_at months (k + i))"
proof (induction years arbitrary: k cur i)
  case Nil
  then show ?case by simp
next
  case (Cons y years)
  show ?case
  proof (cases i)
    case 0
    then show ?thesis by (simp add: Let_def forward_fill_0)
  next
    case (Suc i')
    with Cons.prems have "i' < length years" by simp
    from Cons.IH [OF this, of "Suc k" "if es_anio y then Some y else cur"] Suc
    show ?thesis
      by (simp add: Let_def forward_fill_Suc split: option.splits)
  qed
qed

lemma new_cols_nth:
  "i < length years \<Longrightarrow>
   new_cols years months ! i = etiqueta i (forward_fill years i) (cell_at months i)"
proof -
  assume "i < length years"
  from new_cols_loop_nth [OF this, of 0 None months]
  have "new_cols years months ! i =
     etiqueta i (case forward_fill years i of None \<Rightarrow> None | Some y \<Rightarrow> Some y) (cell_at months i)"
    by (simp add: new_cols_def)
  moreover have "(case forward_fill years i of None \<Rightarrow> None | Some y \<Rightarrow> Some y) = forward_fill years i"
    by (cases "forward_fill years i") simp_all
  ultimately show ?thesis by simp
qed

lemma limpiar_contribuyentes_Inr:
  "limpiar_contribuyentes df_raw = Inr rel \<Longrightarrow>
   2 \<le> length df_raw \<and>
   rel = map limpiar_registro_contribuyentes
           (melt_contribuyentes (new_cols (df_raw ! 0) (df_raw ! 1)) (drop 2 df_raw))"
  by (simp add: limpiar_contribuyentes_def Let_def split: if_splits)

text \<open>
  C10, as the code has it. Row 0 holds the years, row 1 the months, the data start at
  row 2. There is one label per column. Column 0 is \<^verbatim>\<open>Departamento\<close> whatever the
  two header rows hold. Any other column \<open>i\<close> is labelled with the forward-filled year,
  an underscore and the month when it has both a forward-filled year that Python
  counts as true and a month; it is labelled \<^verbatim>\<open>DROP_i\<close>, the mark for exclusion,
  when it lacks the year or lacks the month. The columns kept are those whose label
  does not start with \<^verbatim>\<open>DROP\<close>.
\<close>

theorem new_cols_labels:
  "length (new_cols years months) = length years \<and>
   (i < length years \<longrightarrow>
      new_cols years months ! i =
        (if i = 0 then ''Departamento''
         else if truthy (forward_fill years i) \<and> cell_at months i \<noteq> NaN
              then py_str (the (forward_fill years i)) @ ''_'' @ py_str (cell_at months i)
         else ''DROP_'' @ str_int (int i))) \<and>
   set (kept_idx cols) = {j. j < length cols \<and> \<not> startswith (cols ! j) ''DROP''} \<and>
   (limpiar_contribuyentes df_raw = Inr rel \<longrightarrow>
      2 \<le> length df_raw \<and>
      rel = map limpiar_registro_contribuyentes
              (melt_contribuyentes (new_cols (df_raw ! 0) (df_raw ! 1)) (drop 2 df_raw)))"
proof (intro conjI impI)
  show "length (new_cols years months) = length years"
    by (simp add: new_cols_def length_new_cols_loop)
next
  assume "i < length years"
  then show "new_cols years months ! i =
        (if i = 0 then ''Departamento''
         else if truthy (forward_fill years i) \<and> cell_at months i \<noteq> NaN
              then py_str (the (forward_fill years i)) @ ''_'' @ py_str (cell_at months i)
         else ''DROP_'' @ str_int (int i))"
    by (simp only: new_cols_nth etiqueta_def notna_def)
next
  show "set (kept_idx cols) = {j. j < length cols \<and> \<not> startswith (cols ! j) ''DROP''}"
    by (auto simp: kept_idx_def kept_labels_def positions_def)
next
  assume "limpiar_contribuyentes df_raw = Inr rel"
  then show "2 \<le> length df_raw"
    and "rel = map limpiar_registro_contribuyentes
              (melt_contribuyentes (new_cols (df_raw ! 0) (df_raw ! 1)) (drop 2 df_raw))"
    using limpiar_contribuyentes_Inr by blast+
qed

theorem new_cols_labels_witness:
  "new_cols [Str ''Total'', IntC 2024, NaN, NaN] [Str ''Mes'', Str ''Ene.'', Str ''Feb.'', NaN] ! 0
     = ''Departamento'' \<and>
   new_cols [Str ''Total'', IntC 2024, NaN, NaN] [Str ''Mes'', Str ''Ene.'', Str ''Feb.'', NaN] ! 2
     = ''2024_Feb.'' \<and>
   new_cols [Str ''Total'', IntC 2024, NaN, NaN] [Str ''Mes'', Str ''Ene.'', Str ''Feb.'', NaN] ! 3
     = ''DROP_3'' \<and>
   2 \<le> length [[NaN, IntC 2024], [NaN, Str ''Ene.''], [Str ''LIMA'', IntC 50]]"
proof -
  let ?y = "[Str ''Total'', IntC 2024, NaN, NaN]"
  let ?m = "[Str ''Mes'', Str ''Ene.'', Str ''Feb.'', NaN]"
  let ?g = "[[NaN, IntC 2024], [NaN, Str ''Ene.''], [Str ''LIMA'', IntC 50]]"
  have l0: "(0::nat) < length ?y" and l2: "(2::nat) < length ?y" and l3: "(3::nat) < length ?y"
    by simp_all
  have r0: "(if (0::nat) = 0 then ''Departamento''
         else if truthy (forward_fill ?y 0) \<and> cell_at ?m 0 \<noteq> NaN
              then py_str (the (forward_fill ?y 0)) @ ''_'' @ py_str (cell_at ?m 0)
         else ''DROP_'' @ str_int (int 0)) = ''Departamento''"
    by code_simp
  have r2: "(if (2::nat) = 0 then ''Departamento''
         else if truthy (forward_fill ?y 2) \<and> cell_at ?m 2 \<noteq> NaN
              then py_str (the (forward_fill ?y 2)) @ ''_'' @ py_str (cell_at ?m 2)
         else ''DROP_'' @ str_int (int 2)) = ''2024_Feb.''"
    by code_simp
  have r3: "(if (3::nat) = 0 then ''Departamento''
         else if truthy (forward_fill ?y 3) \<and> cell_at ?m 3 \<noteq> NaN
              then py_str (the (forward_fill ?y 3)) @ ''_'' @ py_str (cell_at ?m 3)
         else ''DROP_'' @ str_int (int 3)) = ''DROP_3''"
    by code_simp
  have g: "limpiar_contribuyentes ?g =
     Inr [\<lparr>c_Departamento = Some ''LIMA'', Year_Mes = ''2024_Ene.'', Contribuyentes = 50,
           c_Anio = Some 2024, c_Mes = ''Enero''\<rparr>]"
    by code_simp
  note label = new_cols_labels [THEN conjunct2, THEN conjunct1, THEN mp]
  note rows = new_cols_labels [THEN conjunct2, THEN conjunct2, THEN conjunct2, THEN mp,
      THEN conjunct1]
  from label [OF l0] r0 have 1: "new_cols ?y ?m ! 0 = ''Departamento''" by (rule trans)
  from label [OF l2] r2 have 2: "new_cols ?y ?m ! 2 = ''2024_Feb.''" by (rule trans)
  from label [OF l3] r3 have 3: "new_cols ?y ?m ! 3 = ''DROP_3''" by (rule trans)
  from g have 4: "2 \<le> length ?g" by (rule rows)
  from 1 2 3 4 show ?thesis by (intro conjI)
qed

text \<open>
  The claim as stated fails: a column that has a forward-filled year, and lacks only
  the month, is marked for exclusion.
\<close>

theorem drop_with_year_present:
  "new_cols [NaN, IntC 2024, NaN] [NaN, Str ''Ene.'', NaN] ! 2 = ''DROP_2'' \<and>
   forward_fill [NaN, IntC 2024, NaN] 2 = Some (IntC 2024) \<and>
   truthy (forward_fill [NaN, IntC 2024, NaN] 2) \<and>
   cell_at [NaN, Str ''Ene.'', NaN] 2 = NaN"
  by code_simp

section \<open>The join and the years on offer\<close>

lemma set_merge:
  "m \<in> set (merge df_trib df_cont) \<longleftrightarrow>
     (\<exists>t \<in> set df_trib. \<exists>c \<in> set df_cont. same_key t c \<and> m = join_rows t c)"
  by (auto simp: merge_def)

lemma join_rows_sel:
  "m_Anio (join_rows t c) = t_Anio t"
  "m_Departamento (join_rows t c) = t_Departamento t"
  "m_Recaudacion (join_rows t c) = Recaudacion t"
  "m_Contribuyentes (join_rows t c) = Contribuyentes c"
  by (simp_all add: join_rows_def)



lemma set_anios_disponibles:
  "set (anios_disponibles df_trib df_cont) =
     {y. y \<in> set (map t_Anio df_trib) \<and> Some y \<in> set (map c_Anio df_cont)}"
  by (auto simp: anios_disponibles_def)

lemma anios_disponibles_descending:
  "sorted_wrt (\<lambda>a b. a > b) (anios_disponibles df_trib df_cont)"
proof -
  let ?l = "sort (remdups (filter (\<lambda>y. Some y \<in> set (map c_Anio df_cont)) (map t_Anio df_trib)))"
  have "sorted ?l \<and> distinct ?l" by simp
  then have "sorted_wrt (<) ?l" by (simp only: strict_sorted_iff)
  then have "sorted_wrt (\<lambda>a b. b < a) (rev ?l)" by (simp only: sorted_wrt_rev)
  then show ?thesis by (simp only: anios_disponibles_def)
qed

lemma procesar_logica_None:
  assumes "of_int anio \<notin> set (anios_disponibles df_trib df_cont)"
  shows "procesar_logica quicksort df_trib df_cont anio = None"
proof -
  have "filter (\<lambda>m. m_Anio m = of_int anio) (merge df_trib df_cont) = []"
  proof (rule ccontr)
    assume "filter (\<lambda>m. m_Anio m = of_int anio) (merge df_trib df_cont) \<noteq> []"
    then obtain m where m: "m \<in> set (merge df_trib df_cont)" "m_Anio m = of_int anio"
      by (metis (mono_tags, lifting) filter_False)
    from m(1) obtain t c where tc: "t \<in> set df_trib" "c \<in> set df_cont" "same_key t c"
      "m = join_rows t c" by (auto simp: set_merge)
    from tc(4) m(2) have y: "t_Anio t = of_int anio" by (simp add: join_rows_sel)
    with tc(3) have "c_Anio c = Some (of_int anio)" by (simp add: same_key_def)
    with tc(1,2) y have "of_int anio \<in> set (map t_Anio df_trib) \<and>
       Some (of_int anio) \<in> set (map c_Anio df_cont)" by force
    then have "of_int anio \<in> set (anios_disponibles df_trib df_cont)"
      by (simp only: set_anios_disponibles mem_Collect_eq)
    with assms show False by contradiction
  qed
  then show ?thesis by (simp add: procesar_logica_def)
qed

text \<open>
  C3, as the code has it. The years on offer are the years that occur in both
  relations, each once, in descending order; they depend on the year columns of the
  two relations only, not on the join. For a year that is not among them the ranking
  is the empty result \<open>None\<close>, not an error. The list is non-empty exactly when some
  year occurs in both relations.
\<close>

theorem anios_disponibles_intersection:
  "set (anios_disponibles df_trib df_cont) =
     {y. y \<in> set (map t_Anio df_trib) \<and> Some y \<in> set (map c_Anio df_cont)} \<and>
   sorted_wrt (\<lambda>a b. a > b) (anios_disponibles df_trib df_cont) \<and>
   (map t_Anio df_trib = map t_Anio df_trib' \<and> map c_Anio df_cont = map c_Anio df_cont'
      \<longrightarrow> anios_disponibles df_trib df_cont = anios_disponibles df_trib' df_cont') \<and>
   (of_int anio \<notin> set (anios_disponibles df_trib df_cont)
      \<longrightarrow> procesar_logica quicksort df_trib df_cont anio = None) \<and>
   (anios_disponibles df_trib df_cont \<noteq> [] \<longleftrightarrow>
      (\<exists>y. y \<in> set (map t_Anio df_trib) \<and> Some y \<in> set (map c_Anio df_cont)))"
proof (intro conjI impI)
  show "set (anios_disponibles df_trib df_cont) =
     {y. y \<in> set (map t_Anio df_trib) \<and> Some y \<in> set (map c_Anio df_cont)}"
    by (rule set_anios_disponibles)
next
  show "sorted_wrt (\<lambda>a b. a > b) (anios_disponibles df_trib df_cont)"
    by (rule anios_disponibles_descending)
next
  assume "map t_Anio df_trib = map t_Anio df_trib' \<and> map c_Anio df_cont = map c_Anio df_cont'"
  then show "anios_disponibles df_trib df_cont = anios_disponibles df_trib' df_cont'"
    by (simp add: anios_disponibles_def)
next
  assume "of_int anio \<notin> set (anios_disponibles df_trib df_cont)"
  then show "procesar_logica quicksort df_trib df_cont anio = None"
    by (rule procesar_logica_None)
next
  have "anios_disponibles df_trib df_cont \<noteq> [] \<longleftrightarrow> set (anios_disponibles df_trib df_cont) \<noteq> {}"
    by simp
  also have "\<dots> \<longleftrightarrow> (\<exists>y. y \<in> set (map t_Anio df_trib) \<and> Some y \<in> set (map c_Anio df_cont))"
    by (simp only: set_anios_disponibles) blast
  finally show "anios_disponibles df_trib df_cont \<noteq> [] \<longleftrightarrow>
      (\<exists>y. y \<in> set (map t_Anio df_trib) \<and> Some y \<in> set (map c_Anio df_cont))" .
qed

theorem anios_disponibles_intersection_witness:
  "procesar_logica stable_quicksort
     [\<lparr>t_Mes = Str ''Enero'', t_Anio = 2023, t_Departamento = ''LIMA'', Recaudacion = 100\<rparr>,
      \<lparr>t_Mes = Str ''Enero'', t_Anio = 2024, t_Departamento = ''LIMA'', Recaudacion = 120\<rparr>]
     [\<lparr>c_Departamento = Some ''LIMA'', Year_Mes = ''2023_Ene.'', Contribuyentes = 50,
       c_Anio = Some 2023, c_Mes = ''Enero''\<rparr>,
      \<lparr>c_Departamento = Some ''LIMA'', Year_Mes = ''2024_Ene.'', Contribuyentes = 60,
       c_Anio = Some 2024, c_Mes = ''Enero''\<rparr>]
     2019 = None \<and>
   anios_disponibles
     [\<lparr>t_Mes = Str ''Enero'', t_Anio = 2023, t_Departamento = ''LIMA'', Recaudacion = 100\<rparr>,
      \<lparr>t_Mes = Str ''Enero'', t_Anio = 2024, t_Departamento = ''LIMA'', Recaudacion = 120\<rparr>]
     [\<lparr>c_Departamento = Some ''LIMA'', Year_Mes = ''2023_Ene.'', Contribuyentes = 50,
       c_Anio = Some 2023, c_Mes = ''Enero''\<rparr>,
      \<lparr>c_Departamento = Some ''LIMA'', Year_Mes = ''2024_Ene.'', Contribuyentes = 60,
       c_Anio = Some 2024, c_Mes = ''Enero''\<rparr>] = [2024, 2023]"
proof -
  let ?T = "[\<lparr>t_Mes = Str ''Enero'', t_Anio = 2023, t_Departamento = ''LIMA'', Recaudacion = 100\<rparr>,
      \<lparr>t_Mes = Str ''Enero'', t_Anio = 2024, t_Departamento = ''LIMA'', Recaudacion = 120\<rparr>]"
  let ?C = "[\<lparr>c_Departamento = Some ''LIMA'', Year_Mes = ''2023_Ene.'', Contribuyentes = 50,
       c_Anio = Some 2023, c_Mes = ''Enero''\<rparr>,
      \<lparr>c_Departamento = Some ''LIMA'', Year_Mes = ''2024_Ene.'', Contribuyentes = 60,
       c_Anio = Some 2024, c_Mes = ''Enero''\<rparr>]"
  have a: "anios_disponibles ?T ?C = [2024, 2023]" by code_simp
  have "of_int 2019 \<notin> set (anios_disponibles ?T ?C)" by (simp only: a) simp
  then have "procesar_logica stable_quicksort ?T ?C 2019 = None"
    by (rule anios_disponibles_intersection
          [THEN conjunct2, THEN conjunct2, THEN conjunct2, THEN conjunct1, THEN mp])
  with a show ?thesis by (intro conjI)
qed

text \<open>
  The claim as stated fails: each sheet has a parseable year and no year is on offer,
  since the two sheets share none.
\<close>

theorem no_common_year:
  "dashboard stable_quicksort
     [[NaN, NaN, NaN],
      [Str ''Mes'', Str Anio, Str ''LIMA''],
      [Str ''Enero'', IntC 2023, IntC 100]]
     [[NaN, IntC 2024],
      [NaN, Str ''Ene.''],
      [Str ''LIMA'', IntC 50]]
     2024 = Inr ([], None) \<and>
   limpiar_tributos
     [[NaN, NaN, NaN],
      [Str ''Mes'', Str Anio, Str ''LIMA''],
      [Str ''Enero'', IntC 2023, IntC 100]] =
   Inr [\<lparr>t_Mes = Str ''Enero'', t_Anio = 2023, t_Departamento = ''LIMA'', Recaudacion = 100\<rparr>] \<and>
   limpiar_contribuyentes
     [[NaN, IntC 2024],
      [NaN, Str ''Ene.''],
      [Str ''LIMA'', IntC 50]] =
   Inr [\<lparr>c_Departamento = Some ''LIMA'', Year_Mes = ''2024_Ene.'', Contribuyentes = 50,
          c_Anio = Some 2024, c_Mes = ''Enero''\<rparr>]"
  by code_simp

section \<open>Sorting the ranking\<close>













section \<open>The rows of the ranking\<close>





















section \<open>The divisor of the metric\<close>





section \<open>The two reshapers on sheets with resolvable headers\<close>

lemma set_value_idx:
  "j \<in> set (value_idx cols) \<longleftrightarrow>
     j < length cols \<and> cols ! j \<notin> {Mes, Anio} \<and> \<not> contains (cols ! j) ''Unnamed''"
  by (auto simp: value_idx_def value_vars_def positions_def)

lemma in_melt_tributos:
  "row \<in> set df \<Longrightarrow> j \<in> set (value_idx cols) \<Longrightarrow>
   (cell_at row (index_of cols Mes), cell_at row (index_of cols Anio), cols ! j, cell_at row j)
     \<in> set (melt_tributos cols df)"
  by (auto simp: melt_tributos_def)

lemma in_melt_contribuyentes:
  "row \<in> set df \<Longrightarrow>
   j \<in> set (filter (\<lambda>j. cols ! j \<noteq> ''Departamento'') (kept_idx cols)) \<Longrightarrow>
   (cell_at row 0, cols ! j, cell_at row j) \<in> set (melt_contribuyentes cols df)"
  by (auto simp: melt_contribuyentes_def)

lemma count_list_1_mem: "count_list xs x = 1 \<Longrightarrow> x \<in> set xs"
  by (metis count_list_0_iff zero_neq_one)

lemma limpiar_tributos_resoluble:
  assumes "cabecera_resoluble df_raw cols"
  shows "limpiar_tributos df_raw =
     Inr (List.map_filter limpiar_registro_tributos
            (melt_tributos cols (drop (header_idx df_raw + 1) df_raw)))"
proof -
  from assms have h: "header_idx df_raw < length df_raw"
    and c: "columnas_tributos (df_raw ! header_idx df_raw) = Inr cols"
    and r: "''Recaudacion'' \<notin> set cols"
    and m: "count_list cols Mes = 1" and a: "count_list cols Anio = 1"
    by (simp_all add: cabecera_resoluble_def)
  from m a have "Mes \<in> set cols" "Anio \<in> set cols" by (simp_all add: count_list_1_mem)
  with h c r m a show ?thesis by (simp add: limpiar_tributos_def Let_def)
qed

lemma concat_map_rows_empty:
  "concat (map (\<lambda>j. map (g j) df) vs) = [] \<longleftrightarrow> df = [] \<or> vs = []"
  by (induction vs) auto

lemma melt_contribuyentes_empty:
  "melt_contribuyentes cols df = [] \<longleftrightarrow>
     df = [] \<or> filter (\<lambda>j. cols ! j \<noteq> ''Departamento'') (kept_idx cols) = []"
  unfolding melt_contribuyentes_def by (rule concat_map_rows_empty)

lemma melt_contribuyentes_labels:
  assumes "list_all (\<lambda>j. length (split (CHR ''_'') (cols ! j)) = 2)
        (filter (\<lambda>j. cols ! j \<noteq> ''Departamento'') (kept_idx cols))"
  shows "\<not> list_ex (\<lambda>r. length (split (CHR ''_'') (fst (snd r))) \<noteq> 2) (melt_contribuyentes cols df)"
  using assms by (auto simp: melt_contribuyentes_def list_all_iff list_ex_iff)

lemma limpiar_contribuyentes_resoluble:
  assumes "cabecera_resoluble_cont df_raw cols"
  shows "limpiar_contribuyentes df_raw =
     Inr (map limpiar_registro_contribuyentes (melt_contribuyentes cols (drop 2 df_raw)))"
proof -
  from assms have l: "2 < length df_raw"
    and c: "cols = new_cols (df_raw ! 0) (df_raw ! 1)"
    and v: "filter (\<lambda>j. cols ! j \<noteq> ''Departamento'') (kept_idx cols) \<noteq> []"
    and s: "list_all (\<lambda>j. length (split (CHR ''_'') (cols ! j)) = 2)
        (filter (\<lambda>j. cols ! j \<noteq> ''Departamento'') (kept_idx cols))"
    and k: "str_accessor_ok df_raw"
    unfolding cabecera_resoluble_cont_def by blast+
  from l have "drop 2 df_raw \<noteq> []" by simp
  with v have ne: "melt_contribuyentes cols (drop 2 df_raw) \<noteq> []"
    by (simp only: melt_contribuyentes_empty) simp
  from v have cne: "cols \<noteq> []" by (auto simp: kept_idx_def kept_labels_def)
  from melt_contribuyentes_labels [OF s]
  have lab: "\<not> list_ex (\<lambda>r. length (split (CHR ''_'') (fst (snd r))) \<noteq> 2)
               (melt_contribuyentes cols (drop 2 df_raw))" .
  from l have "\<not> length df_raw < 2" by simp
  with c [symmetric] ne cne lab k show ?thesis
    by (simp add: limpiar_contribuyentes_def Let_def)
qed

lemma in_set_map_filter:
  "x \<in> set xs \<Longrightarrow> f x = Some y \<Longrightarrow> y \<in> set (List.map_filter f xs)"
  by (force simp: map_filter_def)

lemma tributos_records:
  assumes "cabecera_resoluble df_raw cols"
    and "limpiar_tributos df_raw = Inr rel"
  shows "\<forall>row \<in> set (drop (header_idx df_raw + 1) df_raw). \<forall>j \<in> set (value_idx cols). \<forall>y.
           to_numeric (cell_at row (index_of cols Anio)) = Some y \<longrightarrow>
           \<lparr>t_Mes = cell_at row (index_of cols Mes), t_Anio = y,
             t_Departamento = normalizar_departamento (cols ! j),
             Recaudacion = to_numeric_fillna 0 (cell_at row j)\<rparr> \<in> set rel"
proof (intro ballI allI impI)
  fix row j y
  assume row: "row \<in> set (drop (header_idx df_raw + 1) df_raw)"
    and j: "j \<in> set (value_idx cols)"
    and y: "to_numeric (cell_at row (index_of cols Anio)) = Some y"
  let ?x = "(cell_at row (index_of cols Mes), cell_at row (index_of cols Anio), cols ! j, cell_at row j)"
  let ?r = "\<lparr>t_Mes = cell_at row (index_of cols Mes), t_Anio = y,
             t_Departamento = normalizar_departamento (cols ! j),
             Recaudacion = to_numeric_fillna 0 (cell_at row j)\<rparr>"
  from in_melt_tributos [OF row j]
  have x: "?x \<in> set (melt_tributos cols (drop (header_idx df_raw + 1) df_raw))" .
  from y have "limpiar_registro_tributos ?x = Some ?r"
    by (simp add: limpiar_registro_tributos_def)
  with x have "?r \<in> set (List.map_filter limpiar_registro_tributos
                  (melt_tributos cols (drop (header_idx df_raw + 1) df_raw)))"
    by (rule in_set_map_filter)
  moreover from limpiar_tributos_resoluble [OF assms(1)] assms(2)
  have "rel = List.map_filter limpiar_registro_tributos
                  (melt_tributos cols (drop (header_idx df_raw + 1) df_raw))" by simp
  ultimately show "?r \<in> set rel" by simp
qed

lemma contribuyentes_records:
  assumes "cabecera_resoluble_cont df_raw cols"
    and "limpiar_contribuyentes df_raw = Inr rel"
  shows "\<forall>row \<in> set (drop 2 df_raw).
         \<forall>j \<in> set (filter (\<lambda>j. cols ! j \<noteq> ''Departamento'') (kept_idx cols)).
           limpiar_registro_contribuyentes (cell_at row 0, cols ! j, cell_at row j) \<in> set rel"
proof (intro ballI)
  fix row j
  assume row: "row \<in> set (drop 2 df_raw)"
    and j: "j \<in> set (filter (\<lambda>j. cols ! j \<noteq> ''Departamento'') (kept_idx cols))"
  from in_melt_contribuyentes [OF row j]
  have "(cell_at row 0, cols ! j, cell_at row j) \<in> set (melt_contribuyentes cols (drop 2 df_raw))" .
  then have "limpiar_registro_contribuyentes (cell_at row 0, cols ! j, cell_at row j)
      \<in> set (map limpiar_registro_contribuyentes (melt_contribuyentes cols (drop 2 df_raw)))"
    by simp
  moreover from limpiar_contribuyentes_resoluble [OF assms(1)] assms(2)
  have "rel = map limpiar_registro_contribuyentes (melt_contribuyentes cols (drop 2 df_raw))"
    by simp
  ultimately show "limpiar_registro_contribuyentes (cell_at row 0, cols ! j, cell_at row j) \<in> set rel"
    by simp
qed

text \<open>
  C5. On a non-empty sheet with resolvable headers each reshaper returns a relation,
  whatever the value cells hold. The collection relation has, for every data row with
  a parseable year and every value column, the record of that cell, whose value is
  the number the cell parses to and 0 when it does not parse; the taxpayer relation
  has, for every data row and every kept value column, the record of that cell, whose
  value is the number the cell parses to and 1 when it does not parse. An empty cell
  and the text \<^verbatim>\<open>N/D\<close> do not parse.
\<close>

theorem reshaper_total:
  "(cabecera_resoluble df_raw cols \<longrightarrow>
      (\<exists>rel. limpiar_tributos df_raw = Inr rel \<and>
         (\<forall>row \<in> set (drop (header_idx df_raw + 1) df_raw). \<forall>j \<in> set (value_idx cols). \<forall>y.
            to_numeric (cell_at row (index_of cols Anio)) = Some y \<longrightarrow>
            \<lparr>t_Mes = cell_at row (index_of cols Mes), t_Anio = y,
              t_Departamento = normalizar_departamento (cols ! j),
              Recaudacion = to_numeric_fillna 0 (cell_at row j)\<rparr> \<in> set rel))) \<and>
   (cabecera_resoluble_cont df_raw' cols' \<longrightarrow>
      (\<exists>rel. limpiar_contribuyentes df_raw' = Inr rel \<and>
         (\<forall>row \<in> set (drop 2 df_raw').
          \<forall>j \<in> set (filter (\<lambda>j. cols' ! j \<noteq> ''Departamento'') (kept_idx cols')).
            limpiar_registro_contribuyentes (cell_at row 0, cols' ! j, cell_at row j) \<in> set rel))) \<and>
   Contribuyentes (limpiar_registro_contribuyentes (dep, ym, v)) = to_numeric_fillna 1 v \<and>
   to_numeric_fillna d c = (case to_numeric c of None \<Rightarrow> d | Some x \<Rightarrow> x) \<and>
   to_numeric NaN = None \<and>
   to_numeric (Str ''N/D'') = None \<and>
   (j \<in> set (value_idx cols) \<longleftrightarrow>
      j < length cols \<and> cols ! j \<notin> {Mes, Anio} \<and> \<not> contains (cols ! j) ''Unnamed'')"
proof (intro conjI impI)
  assume h: "cabecera_resoluble df_raw cols"
  let ?rel = "List.map_filter limpiar_registro_tributos
            (melt_tributos cols (drop (header_idx df_raw + 1) df_raw))"
  from limpiar_tributos_resoluble [OF h] have e: "limpiar_tributos df_raw = Inr ?rel" .
  from e tributos_records [OF h e]
  show "\<exists>rel. limpiar_tributos df_raw = Inr rel \<and>
         (\<forall>row \<in> set (drop (header_idx df_raw + 1) df_raw). \<forall>j \<in> set (value_idx cols). \<forall>y.
            to_numeric (cell_at row (index_of cols Anio)) = Some y \<longrightarrow>
            \<lparr>t_Mes = cell_at row (index_of cols Mes), t_Anio = y,
              t_Departamento = normalizar_departamento (cols ! j),
              Recaudacion = to_numeric_fillna 0 (cell_at row j)\<rparr> \<in> set rel)"
    by (intro exI [of _ ?rel] conjI)
next
  assume h: "cabecera_resoluble_cont df_raw' cols'"
  let ?rel = "map limpiar_registro_contribuyentes (melt_contribuyentes cols' (drop 2 df_raw'))"
  from limpiar_contribuyentes_resoluble [OF h] have e: "limpiar_contribuyentes df_raw' = Inr ?rel" .
  from e contribuyentes_records [OF h e]
  show "\<exists>rel. limpiar_contribuyentes df_raw' = Inr rel \<and>
         (\<forall>row \<in> set (drop 2 df_raw').
          \<forall>j \<in> set (filter (\<lambda>j. cols' ! j \<noteq> ''Departamento'') (kept_idx cols')).
            limpiar_registro_contribuyentes (cell_at row 0, cols' ! j, cell_at row j) \<in> set rel)"
    by (intro exI [of _ ?rel] conjI)
next
  show "Contribuyentes (limpiar_registro_contribuyentes (dep, ym, v)) = to_numeric_fillna 1 v"
    by (simp add: limpiar_registro_contribuyentes_def)
next
  show "to_numeric_fillna d c = (case to_numeric c of None \<Rightarrow> d | Some x \<Rightarrow> x)"
    by (simp only: to_numeric_fillna_def)
next
  show "to_numeric NaN = None" by simp
next
  show "to_numeric (Str ''N/D'') = None" by code_simp
next
  show "j \<in> set (value_idx cols) \<longleftrightarrow>
      j < length cols \<and> cols ! j \<notin> {Mes, Anio} \<and> \<not> contains (cols ! j) ''Unnamed''"
    by (rule set_value_idx)
qed

theorem reshaper_total_witness:
  "(\<exists>rel. limpiar_tributos
      [[NaN, NaN, NaN],
       [Str ''Mes'', Str Anio, Str ''LIMA''],
       [Str ''Enero'', IntC 2024, Str ''N/D'']] = Inr rel) \<and>
   (\<exists>rel. limpiar_contribuyentes
      [[NaN, IntC 2024],
       [NaN, Str ''Ene.''],
       [Str ''LIMA'', Str ''N/D'']] = Inr rel) \<and>
   limpiar_tributos
      [[NaN, NaN, NaN],
       [Str ''Mes'', Str Anio, Str ''LIMA''],
       [Str ''Enero'', IntC 2024, Str ''N/D'']] =
     Inr [\<lparr>t_Mes = Str ''Enero'', t_Anio = 2024, t_Departamento = ''LIMA'', Recaudacion = 0\<rparr>] \<and>
   limpiar_contribuyentes
      [[NaN, IntC 2024],
       [NaN, Str ''Ene.''],
       [Str ''LIMA'', Str ''N/D'']] =
     Inr [\<lparr>c_Departamento = Some ''LIMA'', Year_Mes = ''2024_Ene.'', Contribuyentes = 1,
            c_Anio = Some 2024, c_Mes = ''Enero''\<rparr>]"
proof -
  let ?gT = "[[NaN, NaN, NaN],
       [Str ''Mes'', Str Anio, Str ''LIMA''],
       [Str ''Enero'', IntC 2024, Str ''N/D'']]"
  let ?gC = "[[NaN, IntC 2024],
       [NaN, Str ''Ene.''],
       [Str ''LIMA'', Str ''N/D'']]"
  have a: "cabecera_resoluble ?gT [Mes, Anio, ''LIMA'']" by code_simp
  have b: "cabecera_resoluble_cont ?gC [''Departamento'', ''2024_Ene.'']" by code_simp
  from reshaper_total [THEN conjunct1, THEN mp, OF a]
  have 1: "\<exists>rel. limpiar_tributos ?gT = Inr rel" by blast
  from reshaper_total [THEN conjunct2, THEN conjunct1, THEN mp, OF b]
  have 2: "\<exists>rel. limpiar_contribuyentes ?gC = Inr rel" by blast
  have 3: "limpiar_tributos ?gT =
     Inr [\<lparr>t_Mes = Str ''Enero'', t_Anio = 2024, t_Departamento = ''LIMA'', Recaudacion = 0\<rparr>]"
    by code_simp
  have 4: "limpiar_contribuyentes ?gC =
     Inr [\<lparr>c_Departamento = Some ''LIMA'', Year_Mes = ''2024_Ene.'', Contribuyentes = 1,
            c_Anio = Some 2024, c_Mes = ''Enero''\<rparr>]"
    by code_simp
  from 1 2 3 4 show ?thesis by (intro conjI)
qed

section \<open>Records whose year does not parse\<close>

text \<open>
  C6 on the code. \<^verbatim>\<open>limpiar_tributos\<close> drops a record whose year does not parse
  (\<^verbatim>\<open>dropna(subset=['A\<ntilde>o'])\<close>, line 46); \<^verbatim>\<open>limpiar_contribuyentes\<close> has no such
  line and keeps the record, with NaN for its year. On a taxpayer sheet whose year
  header is the text \<^verbatim>\<open>Total\<close> the record is in the relation; on a collection sheet
  with the same text in the year column it is not.
\<close>

theorem contribuyentes_keeps_unparsed_year:
  "limpiar_contribuyentes
     [[NaN, Str ''Total''],
      [NaN, Str ''Ene.''],
      [Str ''LIMA'', IntC 5]] =
   Inr [\<lparr>c_Departamento = Some ''LIMA'', Year_Mes = ''Total_Ene.'', Contribuyentes = 5,
          c_Anio = None, c_Mes = ''Enero''\<rparr>] \<and>
   limpiar_tributos
     [[NaN, NaN, NaN],
      [Str ''Mes'', Str Anio, Str ''LIMA''],
      [Str ''Enero'', Str ''Total'', IntC 5]] = Inr []"
  by code_simp

end
